theory Spec2Isabelle
  imports Main "HOL-Library.Word" "HOL-Library.Char_ord" "HOL-Library.List_Lexorder"
begin

section \<open>Time, configuration and errors\<close>

text \<open>
  A Go \<open>time.Time\<close> is modelled as the number of nanoseconds since the Unix epoch, an
  unbounded integer. A \<open>time.Duration\<close> is a signed 64-bit count of nanoseconds, and
  its arithmetic wraps around. Every call of \<open>time.Now()\<close> is a separate reading of the
  wall clock: a function that reads the clock takes a \<open>clock\<close>, whose value at \<open>i\<close> is the
  \<open>i\<close>-th reading made during the call, in the order the source makes them. The
  \<open>tokenDuration\<close> of the configuration is a Go \<open>int\<close>, 64 bits wide on the platforms
  the server runs on.
\<close>

type_synonym time = int
type_synonym Duration = "64 word"
type_synonym clock = "nat \<Rightarrow> time"

definition Second :: Duration where
  "Second = 1000000000"

definition Hour :: Duration where
  "Hour = 3600 * Second"

definition Add :: "time \<Rightarrow> Duration \<Rightarrow> time" where
  "Add t d = t + sint d"

definition later :: "nat \<Rightarrow> clock \<Rightarrow> clock" where
  "later n clk = (\<lambda>i. clk (i + n))"

text \<open>
  \<open>jwt.NewNumericDate\<close> truncates a time to whole seconds; a numeric date is carried in a
  token as that number of seconds.
\<close>

definition NewNumericDate :: "time \<Rightarrow> int" where
  "NewNumericDate t = t div 1000000000"

definition Unix :: "int \<Rightarrow> time" where
  "Unix sec = sec * 1000000000"

record AuthConfig =
  JWTSecret :: string
  TokenDuration :: "64 word"

record Config =
  Auth :: AuthConfig

datatype claim_error = TokenExpired | TokenNotValidYet

datatype error =
    ErrTokenMalformed
  | ErrTokenUnverifiable
  | ErrTokenSignatureInvalid
  | ErrTokenInvalidClaims "claim_error list"
  | ErrDuplicatedKey
  | ErrPasswordTooLong
  | PanicNilDereference
  | Error string

section \<open>Token Codec\<close>

subsection \<open>Claims and the compact serialization\<close>

record RegisteredClaims =
  Issuer :: string
  Subject :: string
  Audience :: "string list"
  ExpiresAt :: "int option"
  NotBefore :: "int option"
  IssuedAt :: "int option"
  ID :: string

record Claims = RegisteredClaims +
  UserID :: string
  Email :: string
  Provider :: string
  Accesses :: "string list"

text \<open>
  The signing and parsing of tokens is done by the library \<open>golang-jwt/jwt/v5\<close>, which is
  not part of the repository. It is modelled symbolically. A token string is represented by
  what its three segments decode to: the \<open>alg\<close> entry of the header (absent when the header
  has none), the claims of the payload, and the signature; every string that does not split
  and decode in this way is \<open>Malformed\<close>. Strings are text (valid UTF-8), so that the JSON
  encoding of a claim is read back unchanged. A signature is either the HMAC of a signing
  input (the header and payload segments) under a hash and a key, or some other byte
  string, which is the HMAC of nothing.
\<close>

datatype signature =
    HMAC string string "string option" Claims
  | Bytes string

datatype token_string =
    Compact (alg: "string option") (payload: Claims) (sig: signature)
  | Malformed string

datatype SigningMethod =
    SigningMethodHMAC string
  | SigningMethodRSA string
  | SigningMethodRSAPSS string
  | SigningMethodECDSA string
  | SigningMethodEd25519
  | signingMethodNone

definition SigningMethodHS256 :: SigningMethod where
  "SigningMethodHS256 = SigningMethodHMAC ''HS256''"

text \<open>The signing methods the library registers, by the name a header gives them.\<close>

definition GetSigningMethod :: "string \<Rightarrow> SigningMethod option" where
  "GetSigningMethod a =
     (if a \<in> {''HS256'', ''HS384'', ''HS512''} then Some (SigningMethodHMAC a)
      else if a \<in> {''RS256'', ''RS384'', ''RS512''} then Some (SigningMethodRSA a)
      else if a \<in> {''PS256'', ''PS384'', ''PS512''} then Some (SigningMethodRSAPSS a)
      else if a \<in> {''ES256'', ''ES384'', ''ES512''} then Some (SigningMethodECDSA a)
      else if a = ''EdDSA'' then Some SigningMethodEd25519
      else if a = ''none'' then Some signingMethodNone
      else None)"

text \<open>
  \<open>jwt.NewWithClaims\<close> followed by \<open>SignedString\<close> with a byte-string key. Signing with an
  HMAC method and such a key does not fail; the other methods refuse the key.
\<close>

definition SignedString :: "SigningMethod \<Rightarrow> Claims \<Rightarrow> string \<Rightarrow> error + token_string" where
  "SignedString m claims key =
     (case m of
        SigningMethodHMAC a \<Rightarrow> Inr (Compact (Some a) claims (HMAC a key (Some a) claims))
      | _ \<Rightarrow> Inl (Error ''key is of invalid type''))"

text \<open>
  \<open>Verify\<close> of a signing method on a byte-string key: an HMAC method recomputes the HMAC of
  the signing input and compares; the other methods refuse the key.
\<close>

definition Verify :: "SigningMethod \<Rightarrow> string option \<Rightarrow> Claims \<Rightarrow> signature \<Rightarrow> string \<Rightarrow> bool" where
  "Verify m a claims s key =
     (case m of
        SigningMethodHMAC h \<Rightarrow> s = HMAC h key a claims
      | _ \<Rightarrow> False)"

text \<open>
  The library's default validator: a token with an \<open>exp\<close> claim is valid strictly before it,
  one with an \<open>nbf\<close> claim from it on; \<open>iat\<close> is not checked.
\<close>

definition Validate :: "Claims \<Rightarrow> time \<Rightarrow> claim_error list" where
  "Validate claims now =
     (case ExpiresAt claims of
        None \<Rightarrow> []
      | Some e \<Rightarrow> if now < Unix e then [] else [TokenExpired]) @
     (case NotBefore claims of
        None \<Rightarrow> []
      | Some n \<Rightarrow> if now < Unix n then [TokenNotValidYet] else [])"

text \<open>
  \<open>jwt.ParseWithClaims\<close>: decode the segments, find the signing method of the header, ask
  the key function for the key, verify the signature, validate the claims at the time
  \<open>now\<close> read from the clock. When no step fails, the token it returns is marked valid.
\<close>

record Token =
  Method :: SigningMethod
  Token_Claims :: Claims
  Valid :: bool

definition ParseWithClaims ::
  "token_string \<Rightarrow> (SigningMethod \<Rightarrow> error + string) \<Rightarrow> time \<Rightarrow> error + Token" where
  "ParseWithClaims tokenString keyFunc now =
     (case tokenString of
        Malformed _ \<Rightarrow> Inl ErrTokenMalformed
      | Compact a claims s \<Rightarrow>
          (case a of
             None \<Rightarrow> Inl ErrTokenUnverifiable
           | Some name \<Rightarrow>
               (case GetSigningMethod name of
                  None \<Rightarrow> Inl ErrTokenUnverifiable
                | Some m \<Rightarrow>
                    (case keyFunc m of
                       Inl e \<Rightarrow> Inl ErrTokenUnverifiable
                     | Inr key \<Rightarrow>
                         if \<not> Verify m a claims s key then Inl ErrTokenSignatureInvalid
                         else if Validate claims now \<noteq> [] then
                           Inl (ErrTokenInvalidClaims (Validate claims now))
                         else Inr \<lparr>Method = m, Token_Claims = claims, Valid = True\<rparr>))))"

subsection \<open>Issuing and verifying\<close>

definition GenerateToken ::
  "string \<Rightarrow> string \<Rightarrow> string \<Rightarrow> string list \<Rightarrow> Config \<Rightarrow> clock \<Rightarrow> error + token_string" where
  "GenerateToken userID email provider accesses cfg clk =
     (let expirationTime = Add (clk 0) (TokenDuration (Auth cfg) * Hour);
          claims = \<lparr>Issuer = [], Subject = [], Audience = [],
                    ExpiresAt = Some (NewNumericDate expirationTime),
                    NotBefore = None,
                    IssuedAt = Some (NewNumericDate (clk 1)),
                    ID = [],
                    UserID = userID, Email = email, Provider = provider,
                    Accesses = accesses\<rparr>
      in case SignedString SigningMethodHS256 claims (JWTSecret (Auth cfg)) of
           Inl err \<Rightarrow> Inl err
         | Inr tokenString \<Rightarrow> Inr tokenString)"

definition ValidateToken :: "token_string \<Rightarrow> Config \<Rightarrow> time \<Rightarrow> error + Claims" where
  "ValidateToken tokenString cfg now =
     (case ParseWithClaims tokenString
             (\<lambda>m. case m of
                     SigningMethodHMAC _ \<Rightarrow> Inr (JWTSecret (Auth cfg))
                   | _ \<Rightarrow> Inl (Error ''unexpected signing method''))
             now of
        Inl err \<Rightarrow> Inl err
      | Inr token \<Rightarrow>
          if \<not> Valid token then Inl (Error ''invalid token'')
          else Inr (Token_Claims token))"

text \<open>
  \<open>GenerateTokenPair\<close> reads the clock four times (two readings in \<open>GenerateToken\<close>, then
  one for the expiry and one for the issue time of the refresh token) and draws one UUID.
\<close>

definition GenerateTokenPair ::
  "string \<Rightarrow> string \<Rightarrow> string list \<Rightarrow> Config \<Rightarrow> clock \<Rightarrow> string
     \<Rightarrow> error + token_string \<times> token_string" where
  "GenerateTokenPair userID email accesses cfg clk uuid =
     (case GenerateToken userID email ''local'' accesses cfg clk of
        Inl err \<Rightarrow> Inl err
      | Inr accessToken \<Rightarrow>
          (let refreshClaims = \<lparr>Issuer = [], Subject = [], Audience = [],
                    ExpiresAt = Some (NewNumericDate (Add (clk 2) (Hour * 24 * 7))),
                    NotBefore = None,
                    IssuedAt = Some (NewNumericDate (clk 3)),
                    ID = uuid,
                    UserID = userID, Email = email, Provider = ''local'',
                    Accesses = accesses\<rparr>
           in case SignedString SigningMethodHS256 refreshClaims (JWTSecret (Auth cfg)) of
                Inl err \<Rightarrow> Inl err
              | Inr refreshTokenString \<Rightarrow> Inr (accessToken, refreshTokenString)))"

subsection \<open>The source of UUIDs\<close>

text \<open>
  \<open>uuid.New()\<close> of \<open>github.com/google/uuid\<close>, which is not part of the repository,
  draws a random UUID. It is modelled symbolically, as the HMAC is: the source of UUIDs of
  the process is the number of UUIDs drawn from it so far, the UUID of the \<open>n\<close>-th draw
  is \<open>UUID n\<close>, and its \<open>String\<close> is the hexadecimal digits of \<open>n\<close>. So no two draws
  of the process give the same UUID or the same text: random UUIDs do not collide.
\<close>

datatype UUID = UUID nat

type_synonym uuid_source = nat

definition New :: "uuid_source \<Rightarrow> UUID \<times> uuid_source" where
  "New src = (UUID src, Suc src)"

definition hexdigit :: "nat \<Rightarrow> char" where
  "hexdigit d = ''0123456789abcdef'' ! d"

fun hex :: "nat \<Rightarrow> string" where
  "hex n = (if n < 16 then [hexdigit n] else hex (n div 16) @ [hexdigit (n mod 16)])"

definition UUID_String :: "UUID \<Rightarrow> string" where
  "UUID_String u = (case u of UUID n \<Rightarrow> hex n)"

text \<open>
  \<open>GenerateTokenPair\<close> above takes the text of the UUID that the call draws. The call
  itself, as a step of the process on its source of UUIDs: once the access token is
  generated it draws a UUID from the source, and mints the refresh token with its text.
\<close>

definition GenerateTokenPair_call ::
  "string \<Rightarrow> string \<Rightarrow> string list \<Rightarrow> Config \<Rightarrow> clock \<Rightarrow> uuid_source
     \<Rightarrow> (error + token_string \<times> token_string) \<times> uuid_source" where
  "GenerateTokenPair_call userID email accesses cfg clk src =
     (case GenerateToken userID email ''local'' accesses cfg clk of
        Inl err \<Rightarrow> (Inl err, src)
      | Inr accessToken \<Rightarrow>
          (case New src of
             (u, src') \<Rightarrow>
               (GenerateTokenPair userID email accesses cfg clk (UUID_String u), src')))"

section \<open>Credential Store and Revocation Ledger\<close>

subsection \<open>Rows\<close>

text \<open>
  Passwords are hashed by \<open>golang.org/x/crypto/bcrypt\<close>, which is not part of the
  repository and is modelled symbolically too: the \<open>password\<close> column of a user holds
  either the bcrypt hash of a password under a salt, or some other text (the empty string
  of an identity that has no password), which is the hash of nothing. Hashing refuses a
  password longer than 72 bytes; comparing succeeds on the hashed password only.
\<close>

datatype password_column = Bcrypt string string | Text string

definition GenerateFromPassword :: "string \<Rightarrow> string \<Rightarrow> error + password_column" where
  "GenerateFromPassword password salt =
     (if 72 < length password then Inl ErrPasswordTooLong else Inr (Bcrypt salt password))"

definition CompareHashAndPassword :: "password_column \<Rightarrow> string \<Rightarrow> bool" where
  "CompareHashAndPassword hashedPassword password =
     (case hashedPassword of
        Bcrypt salt p \<Rightarrow> p = password
      | Text _ \<Rightarrow> False)"

text \<open>
  The \<open>refresh_token\<close> column of a user is a string; the empty string, which no token
  is, is \<open>Malformed []\<close>.
\<close>

record User =
  User_ID :: string
  User_Email :: string
  User_Name :: string
  User_Provider :: string
  User_AvatarURL :: string
  User_Password :: password_column
  User_RefreshToken :: token_string
  User_Accesses :: "string list"
  User_IsActive :: bool
  User_CreatedAt :: time
  User_UpdatedAt :: time

record BlockedRefreshToken =
  Blocked_ID :: string
  Blocked_Token :: token_string
  Blocked_UserID :: string
  Blocked_ExpiresAt :: time
  Blocked_CreatedAt :: time

text \<open>
  The two tables the authentication code works on. The store is reachable: the errors it
  returns are the violations of the primary keys and of the unique indexes that the
  \<open>gorm\<close> tags of the rows declare (on \<open>users.email\<close> and on
  \<open>blocked_refresh_tokens.token\<close>).
\<close>

record DB =
  users :: "User list"
  blocked_refresh_tokens :: "BlockedRefreshToken list"

text \<open>\<open>First\<close> of gorm: the row with the least primary key among those that match.\<close>

definition First :: "('a \<Rightarrow> string) \<Rightarrow> ('a \<Rightarrow> bool) \<Rightarrow> 'a list \<Rightarrow> 'a option" where
  "First key P rows =
     (case filter P rows of
        [] \<Rightarrow> None
      | r # rs \<Rightarrow> Some (arg_min_list key (r # rs)))"

subsection \<open>UserRepository\<close>

definition GetUserByEmailAndProvider :: "DB \<Rightarrow> string \<Rightarrow> string \<Rightarrow> error + User option" where
  "GetUserByEmailAndProvider db email provider =
     Inr (First User_ID (\<lambda>u. User_Email u = email \<and> User_Provider u = provider) (users db))"

definition GetUserByEmail :: "DB \<Rightarrow> string \<Rightarrow> error + User option" where
  "GetUserByEmail db email = Inr (First User_ID (\<lambda>u. User_Email u = email) (users db))"

definition GetUserByID :: "DB \<Rightarrow> string \<Rightarrow> error + User option" where
  "GetUserByID db userID = Inr (First User_ID (\<lambda>u. User_ID u = userID) (users db))"

definition CreateUser :: "DB \<Rightarrow> User \<Rightarrow> error + DB" where
  "CreateUser db user =
     (if \<exists>u \<in> set (users db). User_ID u = User_ID user \<or> User_Email u = User_Email user
      then Inl ErrDuplicatedKey
      else Inr (db\<lparr>users := users db @ [user]\<rparr>))"

text \<open>
  An update through \<open>Model\<close> also writes the \<open>updated_at\<close> column of the rows it
  changes, with the time \<open>now\<close> that gorm reads from the clock.
\<close>

definition UpdateRefreshToken :: "DB \<Rightarrow> string \<Rightarrow> token_string \<Rightarrow> time \<Rightarrow> error + DB" where
  "UpdateRefreshToken db userID refreshToken now =
     Inr (db\<lparr>users :=
            map (\<lambda>u. if User_ID u = userID
                      then u\<lparr>User_RefreshToken := refreshToken, User_UpdatedAt := now\<rparr>
                      else u) (users db)\<rparr>)"

text \<open>
  \<open>BlockRefreshToken\<close> draws a UUID for the primary key of the new row; gorm fills
  \<open>created_at\<close> with the time \<open>now\<close>.
\<close>

definition BlockRefreshToken ::
  "DB \<Rightarrow> string \<Rightarrow> token_string \<Rightarrow> time \<Rightarrow> string \<Rightarrow> time \<Rightarrow> error + DB" where
  "BlockRefreshToken db userID token expiresAt uuid now =
     (let blocked = \<lparr>Blocked_ID = uuid, Blocked_Token = token, Blocked_UserID = userID,
                     Blocked_ExpiresAt = expiresAt, Blocked_CreatedAt = now\<rparr>
      in if \<exists>b \<in> set (blocked_refresh_tokens db).
              Blocked_ID b = Blocked_ID blocked \<or> Blocked_Token b = Blocked_Token blocked
         then Inl ErrDuplicatedKey
         else Inr (db\<lparr>blocked_refresh_tokens := blocked_refresh_tokens db @ [blocked]\<rparr>))"

definition IsRefreshTokenBlocked :: "DB \<Rightarrow> token_string \<Rightarrow> time \<Rightarrow> bool" where
  "IsRefreshTokenBlocked db token now =
     (let count = length (filter (\<lambda>b. Blocked_Token b = token \<and> now < Blocked_ExpiresAt b)
                            (blocked_refresh_tokens db))
      in 0 < count)"

definition CleanupBlockedTokens :: "DB \<Rightarrow> time \<Rightarrow> error + DB" where
  "CleanupBlockedTokens db now =
     Inr (db\<lparr>blocked_refresh_tokens :=
            filter (\<lambda>b. \<not> Blocked_ExpiresAt b < now) (blocked_refresh_tokens db)\<rparr>)"

text \<open>
  \<open>UpdateUser\<close> stamps the row and saves it: \<open>Save\<close> of gorm stamps it again and
  replaces the row that has its primary key, or inserts it when there is none.
\<close>

definition UpdateUser :: "DB \<Rightarrow> User \<Rightarrow> clock \<Rightarrow> error + DB" where
  "UpdateUser db user clk =
     (let user = user\<lparr>User_UpdatedAt := clk 0\<rparr>;
          user = user\<lparr>User_UpdatedAt := clk 1\<rparr>
      in if \<exists>u \<in> set (users db). User_ID u \<noteq> User_ID user \<and> User_Email u = User_Email user
         then Inl ErrDuplicatedKey
         else if \<exists>u \<in> set (users db). User_ID u = User_ID user
         then Inr (db\<lparr>users := map (\<lambda>u. if User_ID u = User_ID user then user else u) (users db)\<rparr>)
         else Inr (db\<lparr>users := users db @ [user]\<rparr>))"

section \<open>Auth Service\<close>

record TokenPair =
  AccessToken :: token_string
  RefreshToken :: token_string

record LoginResponse =
  Login_User :: User
  Login_Token :: TokenPair

text \<open>
  \<open>Register\<close> draws a UUID for the user's id, and bcrypt a salt; it reads the clock twice.
\<close>

definition Register ::
  "DB \<Rightarrow> string \<Rightarrow> string \<Rightarrow> string \<Rightarrow> string \<Rightarrow> string \<Rightarrow> clock \<Rightarrow> error + User \<times> DB" where
  "Register db email password name uuid salt clk =
     (case GetUserByEmail db email of
        Inl err \<Rightarrow> Inl err
      | Inr existingUser \<Rightarrow>
          if existingUser \<noteq> None then Inl (Error ''user already exists'')
          else
            (case GenerateFromPassword password salt of
               Inl err \<Rightarrow> Inl err
             | Inr hashedPassword \<Rightarrow>
                 (let user = \<lparr>User_ID = uuid, User_Email = email, User_Name = name,
                              User_Provider = ''local'', User_AvatarURL = [],
                              User_Password = hashedPassword,
                              User_RefreshToken = Malformed [],
                              User_Accesses = [''user''], User_IsActive = True,
                              User_CreatedAt = clk 0, User_UpdatedAt = clk 1\<rparr>
                  in case CreateUser db user of
                       Inl err \<Rightarrow> Inl err
                     | Inr db' \<Rightarrow> Inr (user, db'))))"

text \<open>
  \<open>Login\<close> makes the four clock readings of \<open>GenerateTokenPair\<close> and a fifth one for the
  update of the user's row.
\<close>

definition Login ::
  "DB \<Rightarrow> string \<Rightarrow> string \<Rightarrow> Config \<Rightarrow> clock \<Rightarrow> string \<Rightarrow> error + LoginResponse \<times> DB" where
  "Login db email password cfg clk uuid =
     (case GetUserByEmail db email of
        Inl err \<Rightarrow> Inl err
      | Inr None \<Rightarrow> Inl (Error ''user not found'')
      | Inr (Some user) \<Rightarrow>
          if \<not> CompareHashAndPassword (User_Password user) password
          then Inl (Error ''invalid password'')
          else
            (case GenerateTokenPair (User_ID user) (User_Email user) (User_Accesses user) cfg clk uuid of
               Inl err \<Rightarrow> Inl (Error ''failed to generate tokens'')
             | Inr (accessToken, refreshToken) \<Rightarrow>
                 (case UpdateRefreshToken db (User_ID user) refreshToken (clk 4) of
                    Inl err \<Rightarrow> Inl (Error ''failed to save refresh token'')
                  | Inr db' \<Rightarrow>
                      Inr (\<lparr>Login_User = user,
                            Login_Token = \<lparr>AccessToken = accessToken,
                                           RefreshToken = refreshToken\<rparr>\<rparr>, db'))))"

text \<open>
  \<open>ValidateRefreshToken\<close> reads the clock for the query on the ledger and, when the token
  is not blocked, once more for the verification.
\<close>

definition ValidateRefreshToken :: "DB \<Rightarrow> token_string \<Rightarrow> Config \<Rightarrow> clock \<Rightarrow> error + Claims" where
  "ValidateRefreshToken db refreshToken cfg clk =
     (if IsRefreshTokenBlocked db refreshToken (clk 0)
      then Inl (Error ''refresh token has been revoked'')
      else
        (case ValidateToken refreshToken cfg (clk 1) of
           Inl err \<Rightarrow> Inl err
         | Inr claims \<Rightarrow> Inr claims))"

text \<open>
  \<open>UpdateUserAccesses\<close> does not check that the user was found: on an unknown id it
  dereferences a nil pointer.
\<close>

definition UpdateUserAccesses :: "DB \<Rightarrow> string \<Rightarrow> string list \<Rightarrow> clock \<Rightarrow> error + DB" where
  "UpdateUserAccesses db userID accesses clk =
     (case GetUserByID db userID of
        Inl err \<Rightarrow> Inl err
      | Inr None \<Rightarrow> Inl PanicNilDereference
      | Inr (Some user) \<Rightarrow> UpdateUser db (user\<lparr>User_Accesses := accesses\<rparr>) clk)"

section \<open>Handlers\<close>

datatype body =
    ErrorBody string
  | TokensBody token_string token_string
  | LoginBody LoginResponse

datatype response = Response nat body

record LoginInput =
  Input_Email :: string
  Input_Password :: string

record RefreshRequest =
  Request_RefreshToken :: token_string

text \<open>
  A handler gets the body of the request as the body parser reads it, \<open>None\<close> when the
  parser fails, and returns the response together with the store as the request leaves it.
\<close>

definition AuthHandler_Login ::
  "DB \<Rightarrow> Config \<Rightarrow> clock \<Rightarrow> string \<Rightarrow> LoginInput option \<Rightarrow> response \<times> DB" where
  "AuthHandler_Login db cfg clk uuid body =
     (case body of
        None \<Rightarrow> (Response 400 (ErrorBody ''Invalid input''), db)
      | Some input \<Rightarrow>
          (case Login db (Input_Email input) (Input_Password input) cfg clk uuid of
             Inl err \<Rightarrow> (Response 401 (ErrorBody ''Invalid credentials''), db)
           | Inr (loginResponse, db') \<Rightarrow>
               if \<not> User_IsActive (Login_User loginResponse)
               then (Response 403 (ErrorBody ''Account is deactivated''), db')
               else (Response 200 (LoginBody loginResponse), db')))"

text \<open>
  \<open>RefreshToken\<close> makes the two clock readings of \<open>ValidateRefreshToken\<close>, the four of
  \<open>GenerateTokenPair\<close> and one for the update of the user's row, which the service hands
  on to the repository as it is.
\<close>

definition AuthHandler_RefreshToken ::
  "DB \<Rightarrow> Config \<Rightarrow> clock \<Rightarrow> string \<Rightarrow> RefreshRequest option \<Rightarrow> response \<times> DB" where
  "AuthHandler_RefreshToken db cfg clk uuid body =
     (case body of
        None \<Rightarrow>
          (Response 400 (ErrorBody ''Invalid input - expected JSON with refresh_token field''), db)
      | Some input \<Rightarrow>
          (case ValidateRefreshToken db (Request_RefreshToken input) cfg clk of
             Inl err \<Rightarrow> (Response 401 (ErrorBody ''Invalid or expired refresh token''), db)
           | Inr claims \<Rightarrow>
               (case GenerateTokenPair (UserID claims) (Email claims) (Accesses claims) cfg
                       (later 2 clk) uuid of
                  Inl err \<Rightarrow> (Response 500 (ErrorBody ''Failed to generate tokens''), db)
                | Inr (accessToken, refreshToken) \<Rightarrow>
                    (case UpdateRefreshToken db (UserID claims) refreshToken (clk 6) of
                       Inl err \<Rightarrow> (Response 500 (ErrorBody ''Failed to update refresh token''), db)
                     | Inr db' \<Rightarrow> (Response 200 (TokensBody accessToken refreshToken), db')))))"

section \<open>Access Control Guard\<close>

text \<open>
  Of a request context the guard uses the \<open>Authorization\<close> header (the empty string when
  the request has none) and the value stored under the key \<open>user\<close>: nothing, a pointer to
  claims, or a value of another type. A middleware answers the request, hands it on to the
  next handler with the context as it leaves it, or panics.
\<close>

datatype local_value = Unset | ClaimsRef Claims | Foreign

record Ctx =
  Authorization :: string
  Locals_user :: local_value

datatype outcome = Next Ctx | Respond nat body | Panic

text \<open>
  \<open>strings.ToLower\<close> on the ASCII letters. No other character is mapped to a letter of
  \<open>bearer\<close>, so the test of the prefix below is the one of the source on every header.
\<close>

definition ToLower :: "string \<Rightarrow> string" where
  "ToLower s =
     map (\<lambda>c. if c \<in> set ''ABCDEFGHIJKLMNOPQRSTUVWXYZ''
               then char_of (of_char c + (32::nat)) else c) s"

definition HasPrefix :: "string \<Rightarrow> string \<Rightarrow> bool" where
  "HasPrefix s pre = (take (length pre) s = pre)"

text \<open>
  \<open>Protected\<close> hands the text of the credential to \<open>ValidateToken\<close>; \<open>read_token\<close>
  stands for the decoding of that text into its segments.
\<close>

definition Protected :: "(string \<Rightarrow> token_string) \<Rightarrow> Config \<Rightarrow> time \<Rightarrow> Ctx \<Rightarrow> outcome" where
  "Protected read_token cfg now c =
     (let authHeader = Authorization c
      in if authHeader = [] then Respond 401 (ErrorBody ''Missing authorization header'')
         else
           (let token = (if HasPrefix (ToLower authHeader) ''bearer ''
                         then drop 7 authHeader else authHeader)
            in case ValidateToken (read_token token) cfg now of
                 Inl err \<Rightarrow> Respond 401 (ErrorBody ''Invalid token'')
               | Inr claims \<Rightarrow> Next (c\<lparr>Locals_user := ClaimsRef claims\<rparr>)))"

text \<open>The loop of \<open>RequireAccess\<close> over the capability list of the claims.\<close>

fun range_Accesses :: "string list \<Rightarrow> string \<Rightarrow> bool" where
  "range_Accesses [] requiredAccess = False"
| "range_Accesses (access # rest) requiredAccess =
     (if access = requiredAccess then True else range_Accesses rest requiredAccess)"

definition RequireAccess :: "string \<Rightarrow> Ctx \<Rightarrow> outcome" where
  "RequireAccess requiredAccess c =
     (case Locals_user c of
        ClaimsRef claims \<Rightarrow>
          if range_Accesses (Accesses claims) requiredAccess then Next c
          else Respond 403 (ErrorBody ''Insufficient access rights'')
      | _ \<Rightarrow> Panic)"

section \<open>Sample inputs\<close>

text \<open>A clock that gives the listed readings, in this order.\<close>

definition readings :: "time list \<Rightarrow> clock" where
  "readings ts = (\<lambda>i. if i < length ts then ts ! i else 0)"

text \<open>
  The configuration of the example file; the claims of a refresh token of the user \<open>u1\<close>,
  issued at second 1700000000 and expiring seven days later, and the token signed under the
  configured secret; a store that holds this user, and variants of it: with the token
  revoked, with the user deactivated, with the user's capabilities extended, and one whose
  only identity for the address comes from an OAuth provider.
\<close>

definition sample_cfg :: Config where
  "sample_cfg = \<lparr>Auth = \<lparr>JWTSecret = ''your-secret-key'', TokenDuration = 24\<rparr>\<rparr>"

definition sample_claims :: Claims where
  "sample_claims =
     \<lparr>Issuer = [], Subject = [], Audience = [], ExpiresAt = Some 1700604800,
      NotBefore = None, IssuedAt = Some 1700000000, ID = ''jti-1'', UserID = ''u1'',
      Email = ''a@x.com'', Provider = ''local'', Accesses = [''user'']\<rparr>"

definition sample_refresh :: token_string where
  "sample_refresh =
     Compact (Some ''HS256'') sample_claims
       (HMAC ''HS256'' ''your-secret-key'' (Some ''HS256'') sample_claims)"

definition sample_user :: User where
  "sample_user =
     \<lparr>User_ID = ''u1'', User_Email = ''a@x.com'', User_Name = ''A'', User_Provider = ''local'',
      User_AvatarURL = [], User_Password = Bcrypt ''salt'' ''pw'',
      User_RefreshToken = Malformed [], User_Accesses = [''user''], User_IsActive = True,
      User_CreatedAt = 1600000000000000000, User_UpdatedAt = 1600000000000000000\<rparr>"

definition sample_db :: DB where
  "sample_db = \<lparr>users = [sample_user], blocked_refresh_tokens = []\<rparr>"

definition sample_db_revoked :: DB where
  "sample_db_revoked =
     \<lparr>users = [sample_user],
      blocked_refresh_tokens =
        [\<lparr>Blocked_ID = ''b1'', Blocked_Token = sample_refresh, Blocked_UserID = ''u1'',
          Blocked_ExpiresAt = 1700604800000000000,
          Blocked_CreatedAt = 1700000100000000000\<rparr>]\<rparr>"

definition sample_db_deactivated :: DB where
  "sample_db_deactivated =
     \<lparr>users = [sample_user\<lparr>User_IsActive := False\<rparr>], blocked_refresh_tokens = []\<rparr>"

definition sample_db_admin :: DB where
  "sample_db_admin =
     \<lparr>users = [sample_user\<lparr>User_Accesses := [''user'', ''admin''],
                              User_UpdatedAt := 1700000150000000001\<rparr>],
      blocked_refresh_tokens = []\<rparr>"

definition sample_db_google :: DB where
  "sample_db_google =
     \<lparr>users = [sample_user\<lparr>User_ID := ''108'', User_Provider := ''google'',
                              User_Password := Text []\<rparr>],
      blocked_refresh_tokens = []\<rparr>"

definition sample_ctx :: Ctx where
  "sample_ctx =
     \<lparr>Authorization = ''Bearer eyJ'',
      Locals_user = ClaimsRef (sample_claims\<lparr>Accesses := [''user'', ''superadmin'']\<rparr>)\<rparr>"

definition sample_read_token :: "string \<Rightarrow> token_string" where
  "sample_read_token s = (if s = ''eyJ'' then sample_refresh else Malformed s)"

section \<open>Auxiliary facts\<close>

lemma First_None_iff: "First key P rows = None \<longleftrightarrow> (\<forall>r \<in> set rows. \<not> P r)"
proof (cases "filter P rows")
  case Nil
  then show ?thesis by (simp add: First_def filter_empty_conv)
next
  case (Cons x xs)
  then have "x \<in> set (filter P rows)" by simp
  then have "x \<in> set rows \<and> P x" by simp
  with Cons show ?thesis by (auto simp: First_def)
qed

lemma First_SomeD:
  assumes "First key P rows = Some r"
  shows "r \<in> set rows \<and> P r"
proof -
  from assms obtain x xs where f: "filter P rows = x # xs" and r: "r = arg_min_list key (x # xs)"
    by (auto simp: First_def split: list.splits)
  have "arg_min_list key (x # xs) \<in> set (x # xs)"
    by (rule arg_min_list_in) simp
  with f r have "r \<in> set (filter P rows)" by simp
  then show ?thesis by simp
qed

lemma map_fixed_memD: "map f xs = xs \<Longrightarrow> x \<in> set xs \<Longrightarrow> f x = x"
  by (induction xs) auto

lemma IsRefreshTokenBlocked_iff:
  "IsRefreshTokenBlocked db token now \<longleftrightarrow>
     (\<exists>b \<in> set (blocked_refresh_tokens db). Blocked_Token b = token \<and> now < Blocked_ExpiresAt b)"
  by (auto simp: IsRefreshTokenBlocked_def Let_def filter_empty_conv)

lemma range_Accesses_iff:
  "range_Accesses accesses requiredAccess \<longleftrightarrow> requiredAccess \<in> set accesses"
  by (induction accesses) auto

lemma NewNumericDate_week:
  "NewNumericDate (Add t (168 * Hour)) = NewNumericDate t + 604800"
  by (simp add: NewNumericDate_def Add_def Hour_def Second_def)

text \<open>
  A positive token duration of at most 2562047 hours, the most a \<open>Duration\<close> holds,
  puts the expiry of a token after the reading of the clock it is computed from.
\<close>

lemma sint_hours:
  fixes d :: "64 word"
  assumes "0 < sint d" "sint d \<le> 2562047"
  shows "sint (d * Hour) = sint d * 3600000000000"
proof -
  have h: "sint Hour = 3600000000000" by (simp add: Hour_def Second_def)
  have "sint (d * Hour) = signed_take_bit 63 (sint d * sint Hour)"
    by (simp add: sint_word_ariths)
  also have "\<dots> = sint d * sint Hour"
    using assms unfolding h by (intro signed_take_bit_int_eq_self) auto
  finally show ?thesis by (simp add: h)
qed

lemma expiry_after_reading:
  assumes "0 < sint (TokenDuration (Auth cfg))" "sint (TokenDuration (Auth cfg)) \<le> 2562047"
  shows "t < Unix (NewNumericDate (Add t (TokenDuration (Auth cfg) * Hour)))"
proof -
  define D where "D = sint (TokenDuration (Auth cfg)) * 3600000000000"
  have D: "1000000000 \<le> D" using assms(1) by (simp add: D_def)
  have "(t + D) mod 1000000000 < 1000000000" by simp
  then have "t < (t + D) - (t + D) mod 1000000000" using D by linarith
  also have "\<dots> = (t + D) div 1000000000 * 1000000000"
    by (simp add: minus_mod_eq_div_mult)
  finally show ?thesis
    by (simp add: Unix_def NewNumericDate_def Add_def sint_hours [OF assms] D_def)
qed

text \<open>Issuing does not fail: the tokens that \<open>GenerateToken\<close> and \<open>GenerateTokenPair\<close> return.\<close>

lemma GenerateToken_Inr:
  "GenerateToken userID email provider accesses cfg clk =
     Inr (Compact (Some ''HS256'')
       \<lparr>Issuer = [], Subject = [], Audience = [],
        ExpiresAt = Some (NewNumericDate (Add (clk 0) (TokenDuration (Auth cfg) * Hour))),
        NotBefore = None, IssuedAt = Some (NewNumericDate (clk 1)), ID = [],
        UserID = userID, Email = email, Provider = provider, Accesses = accesses\<rparr>
       (HMAC ''HS256'' (JWTSecret (Auth cfg)) (Some ''HS256'')
       \<lparr>Issuer = [], Subject = [], Audience = [],
        ExpiresAt = Some (NewNumericDate (Add (clk 0) (TokenDuration (Auth cfg) * Hour))),
        NotBefore = None, IssuedAt = Some (NewNumericDate (clk 1)), ID = [],
        UserID = userID, Email = email, Provider = provider, Accesses = accesses\<rparr>))"
  by (simp add: GenerateToken_def SignedString_def SigningMethodHS256_def Let_def)

lemma GenerateTokenPair_Inr:
  "GenerateTokenPair userID email accesses cfg clk uuid =
     Inr (Compact (Some ''HS256'')
       \<lparr>Issuer = [], Subject = [], Audience = [],
        ExpiresAt = Some (NewNumericDate (Add (clk 0) (TokenDuration (Auth cfg) * Hour))),
        NotBefore = None, IssuedAt = Some (NewNumericDate (clk 1)), ID = [],
        UserID = userID, Email = email, Provider = ''local'', Accesses = accesses\<rparr>
       (HMAC ''HS256'' (JWTSecret (Auth cfg)) (Some ''HS256'')
       \<lparr>Issuer = [], Subject = [], Audience = [],
        ExpiresAt = Some (NewNumericDate (Add (clk 0) (TokenDuration (Auth cfg) * Hour))),
        NotBefore = None, IssuedAt = Some (NewNumericDate (clk 1)), ID = [],
        UserID = userID, Email = email, Provider = ''local'', Accesses = accesses\<rparr>),
       Compact (Some ''HS256'')
       \<lparr>Issuer = [], Subject = [], Audience = [],
        ExpiresAt = Some (NewNumericDate (clk 2) + 604800),
        NotBefore = None, IssuedAt = Some (NewNumericDate (clk 3)), ID = uuid,
        UserID = userID, Email = email, Provider = ''local'', Accesses = accesses\<rparr>
       (HMAC ''HS256'' (JWTSecret (Auth cfg)) (Some ''HS256'')
       \<lparr>Issuer = [], Subject = [], Audience = [],
        ExpiresAt = Some (NewNumericDate (clk 2) + 604800),
        NotBefore = None, IssuedAt = Some (NewNumericDate (clk 3)), ID = uuid,
        UserID = userID, Email = email, Provider = ''local'', Accesses = accesses\<rparr>))"
  by (simp add: GenerateTokenPair_def GenerateToken_Inr SignedString_def SigningMethodHS256_def
        Let_def NewNumericDate_week)

text \<open>The texts of the UUIDs of different draws differ.\<close>

lemma hexdigit_inj:
  assumes "d < 16" "e < 16" "hexdigit d = hexdigit e"
  shows "d = e"
proof -
  have "distinct ''0123456789abcdef''" by simp
  moreover have "d < length ''0123456789abcdef''" "e < length ''0123456789abcdef''"
    using assms by simp_all
  ultimately show ?thesis
    using assms(3) unfolding hexdigit_def by (simp only: nth_eq_iff_index_eq)
qed

lemma hex_not_Nil: "hex n \<noteq> []"
  by (subst hex.simps) (simp del: hex.simps)

lemma hex_inj: "hex m = hex n \<Longrightarrow> m = n"
proof (induction m arbitrary: n rule: hex.induct)
  case (1 m)
  show ?case
  proof (cases "m < 16")
    case m: True
    show ?thesis
    proof (cases "n < 16")
      case True
      with m "1.prems" have "hexdigit m = hexdigit n"
        by (simp add: hex.simps [of m] hex.simps [of n] del: hex.simps)
      with m True show ?thesis by (rule hexdigit_inj)
    next
      case False
      with m "1.prems" have "[hexdigit m] = hex (n div 16) @ [hexdigit (n mod 16)]"
        by (simp add: hex.simps [of m] hex.simps [of n] del: hex.simps)
      then have "hex (n div 16) = []" by (simp add: Cons_eq_append_conv del: hex.simps)
      with hex_not_Nil show ?thesis by blast
    qed
  next
    case m: False
    show ?thesis
    proof (cases "n < 16")
      case True
      with m "1.prems" have "hex (m div 16) @ [hexdigit (m mod 16)] = [hexdigit n]"
        by (simp add: hex.simps [of m] hex.simps [of n] del: hex.simps)
      then have "hex (m div 16) = []" by (simp add: append_eq_Cons_conv del: hex.simps)
      with hex_not_Nil show ?thesis by blast
    next
      case False
      with m "1.prems" have
        eq: "hex (m div 16) = hex (n div 16)" "hexdigit (m mod 16) = hexdigit (n mod 16)"
        by (simp_all add: hex.simps [of m] hex.simps [of n] del: hex.simps)
      from "1.IH" [OF m eq(1)] have d: "m div 16 = n div 16" .
      have "m mod 16 = n mod 16"
        by (rule hexdigit_inj [OF _ _ eq(2)]) simp_all
      with d show ?thesis by (metis div_mult_mod_eq)
    qed
  qed
qed

lemma UUID_String_inj: "UUID_String (UUID m) = UUID_String (UUID n) \<longleftrightarrow> m = n"
  by (auto simp add: UUID_String_def simp del: hex.simps dest: hex_inj)

text \<open>A call of \<open>GenerateTokenPair\<close> takes one UUID from the source and mints with it.\<close>

lemma GenerateTokenPair_call_eq:
  "GenerateTokenPair_call userID email accesses cfg clk src =
     (GenerateTokenPair userID email accesses cfg clk (UUID_String (UUID src)), Suc src)"
  by (simp add: GenerateTokenPair_call_def GenerateToken_Inr New_def)

text \<open>An update of a user's capabilities leaves the ledger as it is.\<close>

lemma UpdateUserAccesses_ledger:
  assumes "UpdateUserAccesses db userID accesses clk = Inr db'"
  shows "blocked_refresh_tokens db' = blocked_refresh_tokens db"
  using assms
  by (auto simp: UpdateUserAccesses_def GetUserByID_def UpdateUser_def Let_def
           split: option.splits if_splits)

section \<open>Revocation\<close>

text \<open>
  Claim C1. A refresh token that the ledger holds with a recorded expiry later than the
  time of the query is refused with the error "refresh token has been revoked", whatever
  the token is: the ledger is consulted first, and the verification of the token, which
  might succeed, is not reached. The refresh handler then answers 401 and leaves the store
  as it was.
\<close>

theorem ValidateRefreshToken_revoked:
  assumes "\<exists>b \<in> set (blocked_refresh_tokens db).
             Blocked_Token b = refreshToken \<and> clk 0 < Blocked_ExpiresAt b"
  shows "ValidateRefreshToken db refreshToken cfg clk =
           Inl (Error ''refresh token has been revoked'')
       \<and> AuthHandler_RefreshToken db cfg clk uuid (Some \<lparr>Request_RefreshToken = refreshToken\<rparr>) =
           (Response 401 (ErrorBody ''Invalid or expired refresh token''), db)"
  using assms
  by (simp add: ValidateRefreshToken_def AuthHandler_RefreshToken_def IsRefreshTokenBlocked_iff)

text \<open>
  The sample token is within its lifetime and verifies, and is refused all the same once
  it is in the ledger.
\<close>

theorem ValidateRefreshToken_revoked_witness:
  "ValidateToken sample_refresh sample_cfg 1700000200000000500 = Inr sample_claims
   \<and> ValidateRefreshToken sample_db_revoked sample_refresh sample_cfg
        (readings [1700000200000000000, 1700000200000000500]) =
       Inl (Error ''refresh token has been revoked'')"
proof -
  have h: "\<exists>b \<in> set (blocked_refresh_tokens sample_db_revoked).
             Blocked_Token b = sample_refresh
             \<and> readings [1700000200000000000, 1700000200000000500] 0 < Blocked_ExpiresAt b"
    by (simp add: sample_db_revoked_def sample_user_def sample_refresh_def sample_claims_def
          sample_cfg_def readings_def)
  have v: "ValidateToken sample_refresh sample_cfg 1700000200000000500 = Inr sample_claims"
    by (simp add: sample_db_revoked_def sample_user_def sample_refresh_def sample_claims_def
          sample_cfg_def readings_def ValidateToken_def ParseWithClaims_def
          GetSigningMethod_def
          Verify_def Validate_def Unix_def)
  from ValidateRefreshToken_revoked
         [where db = sample_db_revoked and refreshToken = sample_refresh
            and clk = "readings [1700000200000000000, 1700000200000000500]"
            and cfg = sample_cfg and uuid = "''jti-2''", OF h] v
  show ?thesis by simp
qed

text \<open>
  Claim C2, as the code has it. A call of \<open>BlockRefreshToken\<close> that succeeds leaves
  exactly one entry for the token value in the ledger. A second call with the same token
  value (whatever its other arguments) does not succeed: the unique index on the token
  refuses the row, the call returns the error of the store, and the ledger stays as it was.
  After either call the token is reported blocked at every time before the recorded expiry.
\<close>

theorem BlockRefreshToken_twice:
  assumes "BlockRefreshToken db userID token expiresAt uuid now = Inr db1"
  shows "BlockRefreshToken db1 userID' token expiresAt' uuid' now' = Inl ErrDuplicatedKey
       \<and> length (filter (\<lambda>b. Blocked_Token b = token) (blocked_refresh_tokens db1)) = 1
       \<and> (\<forall>t. t < expiresAt \<longrightarrow> IsRefreshTokenBlocked db1 token t)"
  using assms
  by (auto simp: BlockRefreshToken_def Let_def IsRefreshTokenBlocked_iff filter_empty_conv
           split: if_splits)

theorem BlockRefreshToken_twice_witness:
  "BlockRefreshToken sample_db ''u1'' sample_refresh 1700604800000000000 ''b1''
      1700000100000000000 = Inr sample_db_revoked
   \<and> BlockRefreshToken sample_db_revoked ''u1'' sample_refresh 1700604800000000000 ''b2''
      1700000150000000000 = Inl ErrDuplicatedKey
   \<and> length (filter (\<lambda>b. Blocked_Token b = sample_refresh)
        (blocked_refresh_tokens sample_db_revoked)) = 1
   \<and> IsRefreshTokenBlocked sample_db_revoked sample_refresh 1700000200000000000"
proof -
  have h: "BlockRefreshToken sample_db ''u1'' sample_refresh 1700604800000000000 ''b1''
      1700000100000000000 = Inr sample_db_revoked"
    by (simp add: sample_db_def sample_db_revoked_def sample_user_def sample_refresh_def
          sample_claims_def BlockRefreshToken_def)
  from BlockRefreshToken_twice
         [OF h, where userID' = "''u1''" and expiresAt' = 1700604800000000000
            and uuid' = "''b2''" and now' = 1700000150000000000] h
  show ?thesis by simp
qed

text \<open>
  The claim as the specification words it fails: the second revocation of the sample token
  is an error, not a silent success; and at the recorded expiry the token is no longer
  reported blocked.
\<close>

theorem BlockRefreshToken_twice_counterexample:
  "BlockRefreshToken sample_db ''u1'' sample_refresh 1700604800000000000 ''b1''
      1700000100000000000 = Inr sample_db_revoked
   \<and> BlockRefreshToken sample_db_revoked ''u1'' sample_refresh 1700604800000000000 ''b2''
      1700000150000000000 = Inl ErrDuplicatedKey
   \<and> \<not> IsRefreshTokenBlocked sample_db_revoked sample_refresh 1700604800000000000"
  by (simp add: sample_db_def sample_db_revoked_def sample_user_def sample_refresh_def
        sample_claims_def BlockRefreshToken_def IsRefreshTokenBlocked_def)

section \<open>Registration and login\<close>

text \<open>
  Claim C3, as the code has it. \<open>Register\<close> fails with "user already exists" exactly when
  the store holds an identity with the same email address, whatever the provider of that
  identity: the lookup is by the address alone.
\<close>

theorem Register_already_exists_iff:
  "Register db email password name uuid salt clk = Inl (Error ''user already exists'')
     \<longleftrightarrow> (\<exists>u \<in> set (users db). User_Email u = email)"
  by (auto simp: Register_def GetUserByEmail_def First_None_iff GenerateFromPassword_def
        CreateUser_def Let_def split: sum.splits if_splits)

theorem Register_already_exists_iff_witness:
  "Register sample_db ''a@x.com'' ''pw2'' ''A2'' ''u2'' ''salt2''
      (readings [1700000000000000000, 1700000000000000001]) = Inl (Error ''user already exists'')
   \<and> Register sample_db ''b@x.com'' ''pw2'' ''B'' ''u2'' ''salt2''
      (readings [1700000000000000000, 1700000000000000001]) \<noteq> Inl (Error ''user already exists'')"
  using Register_already_exists_iff [of sample_db "''a@x.com''" "''pw2''" "''A2''" "''u2''" "''salt2''"
      "readings [1700000000000000000, 1700000000000000001]"]
    Register_already_exists_iff [of sample_db "''b@x.com''" "''pw2''" "''B''" "''u2''" "''salt2''"
      "readings [1700000000000000000, 1700000000000000001]"]
  by (simp add: sample_db_def sample_user_def)

text \<open>
  The claim as the specification words it fails: the store holds no local identity for the
  address, only one of the provider \<open>google\<close>, and registration is refused with "user
  already exists".
\<close>

theorem Register_already_exists_counterexample:
  "GetUserByEmailAndProvider sample_db_google ''a@x.com'' ''local'' = Inr None
   \<and> Register sample_db_google ''a@x.com'' ''pw'' ''A'' ''u2'' ''salt''
      (readings [1700000000000000000, 1700000000000000001]) = Inl (Error ''user already exists'')"
  by (simp add: sample_db_google_def sample_user_def GetUserByEmailAndProvider_def
        GetUserByEmail_def First_def Register_def)

text \<open>
  Claim C10. When \<open>Login\<close> is called with the right password for a deactivated account,
  the handler answers 403 "Account is deactivated", but only after the service has minted
  a pair of tokens and has written the new refresh token into the user's row: the store the
  request leaves behind is the one \<open>UpdateRefreshToken\<close> returns, in which the row of the
  user holds the new refresh token, and it differs from the store the request found
  whenever the row held another value before.
\<close>

theorem AuthHandler_Login_deactivated:
  assumes found: "GetUserByEmail db email = Inr (Some user)"
    and correct: "CompareHashAndPassword (User_Password user) password"
    and deactivated: "\<not> User_IsActive user"
  shows "\<exists>accessToken refreshToken db'.
           GenerateTokenPair (User_ID user) (User_Email user) (User_Accesses user) cfg clk uuid =
             Inr (accessToken, refreshToken)
         \<and> AuthHandler_Login db cfg clk uuid
              (Some \<lparr>Input_Email = email, Input_Password = password\<rparr>) =
             (Response 403 (ErrorBody ''Account is deactivated''), db')
         \<and> UpdateRefreshToken db (User_ID user) refreshToken (clk 4) = Inr db'
         \<and> (\<forall>u \<in> set (users db'). User_ID u = User_ID user \<longrightarrow> User_RefreshToken u = refreshToken)
         \<and> (\<exists>u \<in> set (users db'). User_ID u = User_ID user)
         \<and> (User_RefreshToken user \<noteq> refreshToken \<longrightarrow> db' \<noteq> db)"
proof -
  obtain accessToken refreshToken where
    pair: "GenerateTokenPair (User_ID user) (User_Email user) (User_Accesses user) cfg clk uuid =
             Inr (accessToken, refreshToken)"
    by (simp add: GenerateTokenPair_Inr)
  define db' where "db' = db\<lparr>users :=
            map (\<lambda>u. if User_ID u = User_ID user
                      then u\<lparr>User_RefreshToken := refreshToken, User_UpdatedAt := clk 4\<rparr>
                      else u) (users db)\<rparr>"
  have upd: "UpdateRefreshToken db (User_ID user) refreshToken (clk 4) = Inr db'"
    by (simp add: UpdateRefreshToken_def db'_def)
  have login: "Login db email password cfg clk uuid =
      Inr (\<lparr>Login_User = user,
            Login_Token = \<lparr>AccessToken = accessToken, RefreshToken = refreshToken\<rparr>\<rparr>, db')"
    using found correct pair upd by (simp add: Login_def)
  have handler: "AuthHandler_Login db cfg clk uuid
              (Some \<lparr>Input_Email = email, Input_Password = password\<rparr>) =
             (Response 403 (ErrorBody ''Account is deactivated''), db')"
    using login deactivated by (simp add: AuthHandler_Login_def)
  have mem: "user \<in> set (users db)"
    using found First_SomeD [of User_ID "\<lambda>u. User_Email u = email" "users db" user]
    by (simp add: GetUserByEmail_def)
  have slot: "\<forall>u \<in> set (users db'). User_ID u = User_ID user \<longrightarrow> User_RefreshToken u = refreshToken"
    by (auto simp: db'_def)
  have present: "\<exists>u \<in> set (users db'). User_ID u = User_ID user"
  proof -
    have "user\<lparr>User_RefreshToken := refreshToken, User_UpdatedAt := clk 4\<rparr> \<in> set (users db')"
      using mem by (force simp: db'_def)
    then show ?thesis by (rule bexI [rotated]) simp
  qed
  have changed: "db' \<noteq> db" if "User_RefreshToken user \<noteq> refreshToken"
  proof
    assume "db' = db"
    then have "users db' = users db" by simp
    then have "map (\<lambda>u. if User_ID u = User_ID user
                      then u\<lparr>User_RefreshToken := refreshToken, User_UpdatedAt := clk 4\<rparr>
                      else u) (users db) = users db"
      by (simp add: db'_def)
    from map_fixed_memD [OF this mem]
    have "user\<lparr>User_RefreshToken := refreshToken, User_UpdatedAt := clk 4\<rparr> = user"
      by simp
    then have "User_RefreshToken (user\<lparr>User_RefreshToken := refreshToken, User_UpdatedAt := clk 4\<rparr>)
               = User_RefreshToken user"
      by simp
    with that show False by simp
  qed
  from pair handler upd slot present changed show ?thesis by blast
qed

text \<open>
  The deactivated sample user logs in with the right password: the answer is 403, and the
  row, whose refresh token was empty, now holds the sample token.
\<close>

theorem AuthHandler_Login_deactivated_witness:
  "GetUserByEmail sample_db_deactivated ''a@x.com'' = Inr (Some (sample_user\<lparr>User_IsActive := False\<rparr>))
   \<and> AuthHandler_Login sample_db_deactivated sample_cfg
        (readings [1700000000000000000, 1700000000000000001, 1700000000000000002,
                   1700000000000000003, 1700000000000000004])
        ''jti-1'' (Some \<lparr>Input_Email = ''a@x.com'', Input_Password = ''pw''\<rparr>) =
      (Response 403 (ErrorBody ''Account is deactivated''),
       \<lparr>users = [sample_user\<lparr>User_IsActive := False, User_RefreshToken := sample_refresh,
                              User_UpdatedAt := 1700000000000000004\<rparr>],
        blocked_refresh_tokens = []\<rparr>)"
proof -
  have found: "GetUserByEmail sample_db_deactivated ''a@x.com'' =
                 Inr (Some (sample_user\<lparr>User_IsActive := False\<rparr>))"
    by (simp add: sample_db_deactivated_def sample_user_def sample_cfg_def sample_refresh_def
          sample_claims_def readings_def GetUserByEmail_def First_def)
  have correct: "CompareHashAndPassword (User_Password (sample_user\<lparr>User_IsActive := False\<rparr>)) ''pw''"
    by (simp add: sample_db_deactivated_def sample_user_def sample_cfg_def sample_refresh_def
          sample_claims_def readings_def CompareHashAndPassword_def)
  have deactivated: "\<not> User_IsActive (sample_user\<lparr>User_IsActive := False\<rparr>)"
    by simp
  from AuthHandler_Login_deactivated
         [OF found correct deactivated, where cfg = sample_cfg and uuid = "''jti-1''"
            and clk = "readings [1700000000000000000, 1700000000000000001, 1700000000000000002,
                   1700000000000000003, 1700000000000000004]"]
  obtain accessToken refreshToken db' where
    pair: "GenerateTokenPair (User_ID (sample_user\<lparr>User_IsActive := False\<rparr>))
             (User_Email (sample_user\<lparr>User_IsActive := False\<rparr>))
             (User_Accesses (sample_user\<lparr>User_IsActive := False\<rparr>)) sample_cfg
             (readings [1700000000000000000, 1700000000000000001, 1700000000000000002,
                   1700000000000000003, 1700000000000000004]) ''jti-1'' =
           Inr (accessToken, refreshToken)"
    and handler: "AuthHandler_Login sample_db_deactivated sample_cfg
        (readings [1700000000000000000, 1700000000000000001, 1700000000000000002,
                   1700000000000000003, 1700000000000000004])
        ''jti-1'' (Some \<lparr>Input_Email = ''a@x.com'', Input_Password = ''pw''\<rparr>) =
      (Response 403 (ErrorBody ''Account is deactivated''), db')"
    and upd: "UpdateRefreshToken sample_db_deactivated
               (User_ID (sample_user\<lparr>User_IsActive := False\<rparr>)) refreshToken
               (readings [1700000000000000000, 1700000000000000001, 1700000000000000002,
                   1700000000000000003, 1700000000000000004] 4) = Inr db'"
    by blast
  from pair have r: "refreshToken = sample_refresh"
    by (simp add: GenerateTokenPair_Inr sample_db_deactivated_def sample_user_def
          sample_cfg_def sample_refresh_def sample_claims_def readings_def NewNumericDate_def)
  from upd r have "db' = \<lparr>users = [sample_user\<lparr>User_IsActive := False, User_RefreshToken := sample_refresh,
                              User_UpdatedAt := 1700000000000000004\<rparr>],
        blocked_refresh_tokens = []\<rparr>"
    by (simp add: UpdateRefreshToken_def sample_db_deactivated_def sample_user_def
          sample_cfg_def sample_refresh_def sample_claims_def readings_def)
  with handler found show ?thesis by simp
qed

section \<open>Issuing and verifying tokens\<close>

text \<open>
  Claim C4. \<open>GenerateToken\<close> returns a token for every subject id, email, provider,
  capability list and configuration, and \<open>ValidateToken\<close>, under a configuration with
  the same secret and at any time before the expiry the token carries, accepts it and
  returns claims with the subject id, email, provider and capability list it was issued for.
  With a positive token duration that does not overflow, the expiry lies after the reading
  of the clock it is computed from, so that there are such times.
\<close>

theorem ValidateToken_GenerateToken:
  "\<exists>tokenString.
     GenerateToken userID email provider accesses cfg clk = Inr tokenString
     \<and> ExpiresAt (payload tokenString) =
         Some (NewNumericDate (Add (clk 0) (TokenDuration (Auth cfg) * Hour)))
     \<and> (\<forall>cfg' now.
          JWTSecret (Auth cfg') = JWTSecret (Auth cfg)
          \<and> now < Unix (NewNumericDate (Add (clk 0) (TokenDuration (Auth cfg) * Hour))) \<longrightarrow>
          (\<exists>claims. ValidateToken tokenString cfg' now = Inr claims
             \<and> UserID claims = userID \<and> Email claims = email
             \<and> Provider claims = provider \<and> Accesses claims = accesses))
     \<and> (0 < sint (TokenDuration (Auth cfg)) \<and> sint (TokenDuration (Auth cfg)) \<le> 2562047 \<longrightarrow>
          clk 0 < Unix (NewNumericDate (Add (clk 0) (TokenDuration (Auth cfg) * Hour))))"
proof -
  have valid: "\<exists>claims. ValidateToken tokenString cfg' now = Inr claims
             \<and> UserID claims = userID \<and> Email claims = email
             \<and> Provider claims = provider \<and> Accesses claims = accesses"
    if "GenerateToken userID email provider accesses cfg clk = Inr tokenString"
      and "JWTSecret (Auth cfg') = JWTSecret (Auth cfg)"
      and "now < Unix (NewNumericDate (Add (clk 0) (TokenDuration (Auth cfg) * Hour)))"
    for tokenString cfg' now
    using that
    by (auto simp add: GenerateToken_Inr ValidateToken_def ParseWithClaims_def
          GetSigningMethod_def Verify_def Validate_def)
  have expiry: "ExpiresAt (payload tokenString) =
         Some (NewNumericDate (Add (clk 0) (TokenDuration (Auth cfg) * Hour)))"
    if "GenerateToken userID email provider accesses cfg clk = Inr tokenString" for tokenString
    using that by (auto simp add: GenerateToken_Inr)
  have issued: "\<exists>tokenString. GenerateToken userID email provider accesses cfg clk = Inr tokenString"
    by (simp add: GenerateToken_Inr)
  from issued valid expiry expiry_after_reading [of cfg "clk 0"] show ?thesis
    by blast
qed

text \<open>
  With the token duration of 24 hours of the example configuration, a token issued at
  second 1700000000 is accepted half a second later.
\<close>

theorem ValidateToken_GenerateToken_witness:
  "\<exists>tokenString.
     GenerateToken ''108'' ''a@x.com'' ''google'' [''user''] sample_cfg
       (readings [1700000000000000000, 1700000000000000100]) = Inr tokenString
     \<and> ExpiresAt (payload tokenString) = Some 1700086400
     \<and> (\<exists>claims. ValidateToken tokenString sample_cfg 1700000000500000000 = Inr claims
           \<and> UserID claims = ''108'' \<and> Email claims = ''a@x.com''
           \<and> Provider claims = ''google'' \<and> Accesses claims = [''user''])"
proof -
  have e: "NewNumericDate (Add (readings [1700000000000000000, 1700000000000000100] 0)
             (TokenDuration (Auth sample_cfg) * Hour)) = 1700086400"
    by (simp add: sample_cfg_def readings_def NewNumericDate_def Add_def Hour_def Second_def)
  from ValidateToken_GenerateToken
         [of "''108''" "''a@x.com''" "''google''" "[''user'']" sample_cfg
            "readings [1700000000000000000, 1700000000000000100]"]
  show ?thesis unfolding e by (auto simp: Unix_def)
qed

text \<open>
  Claim C5. A token whose header names no HMAC algorithm (one of \<open>HS256\<close>, \<open>HS384\<close>,
  \<open>HS512\<close>) is refused by \<open>ValidateToken\<close>, whatever its payload and its signature.
\<close>

theorem ValidateToken_rejects_other_algorithms:
  assumes "a \<notin> {Some ''HS256'', Some ''HS384'', Some ''HS512''}"
  shows "\<exists>err. ValidateToken (Compact a claims s) cfg now = Inl err"
  using assms
  by (auto simp add: ValidateToken_def ParseWithClaims_def GetSigningMethod_def
        split: option.splits)

text \<open>
  The unexpired sample claims under the header \<open>none\<close> with an empty signature, and under
  the header \<open>RS256\<close> with an HMAC of the shared secret as signature, are both refused.
\<close>

theorem ValidateToken_rejects_other_algorithms_witness:
  "(\<exists>err. ValidateToken (Compact (Some ''none'') sample_claims (Bytes []))
             sample_cfg 1700000200000000000 = Inl err)
   \<and> (\<exists>err. ValidateToken
               (Compact (Some ''RS256'') sample_claims
                  (HMAC ''HS256'' ''your-secret-key'' (Some ''RS256'') sample_claims))
               sample_cfg 1700000200000000000 = Inl err)"
proof -
  have n: "Some ''none'' \<notin> {Some ''HS256'', Some ''HS384'', Some ''HS512''}" by simp
  have r: "Some ''RS256'' \<notin> {Some ''HS256'', Some ''HS384'', Some ''HS512''}" by simp
  from ValidateToken_rejects_other_algorithms [OF n] ValidateToken_rejects_other_algorithms [OF r]
  show ?thesis by blast
qed

text \<open>
  Claim C7, as the code has it. A call of \<open>GenerateTokenPair\<close> returns a pair for every
  input. The expiry of its refresh token is the clock reading taken for it, truncated to
  the second, plus exactly 604800 seconds (seven days), whatever the configured token
  duration; the issue time is a separate, later reading of the clock, truncated to the
  second, so that the expiry is the issue time plus seven days when both readings fall into
  the same second. The JWT ID is the text of the UUID that the call draws from the source
  for this token, and it is unique: the refresh token of every other call of the process,
  earlier or later and whatever its arguments, has another JWT ID.
\<close>

theorem GenerateTokenPair_refresh_lifetime:
  "\<exists>accessToken refreshToken.
     GenerateTokenPair_call userID email accesses cfg clk src =
       (Inr (accessToken, refreshToken), Suc src)
     \<and> GenerateTokenPair userID email accesses cfg clk (UUID_String (UUID src)) =
         Inr (accessToken, refreshToken)
     \<and> ExpiresAt (payload refreshToken) = Some (NewNumericDate (clk 2) + 604800)
     \<and> IssuedAt (payload refreshToken) = Some (NewNumericDate (clk 3))
     \<and> (NewNumericDate (clk 2) = NewNumericDate (clk 3) \<longrightarrow>
          ExpiresAt (payload refreshToken) =
            map_option (\<lambda>i. i + 604800) (IssuedAt (payload refreshToken)))
     \<and> ID (payload refreshToken) = UUID_String (UUID src)
     \<and> (\<forall>userID' email' accesses' cfg' clk' src' accessToken' refreshToken' src''.
          src' \<noteq> src
          \<and> GenerateTokenPair_call userID' email' accesses' cfg' clk' src' =
              (Inr (accessToken', refreshToken'), src'') \<longrightarrow>
          ID (payload refreshToken') \<noteq> ID (payload refreshToken)
          \<and> refreshToken' \<noteq> refreshToken)"
  by (auto simp add: GenerateTokenPair_call_eq GenerateTokenPair_Inr UUID_String_inj)

text \<open>
  Two calls in a row, with the same arguments and the same readings of the clock, on a
  source from which 26 UUIDs have been drawn: the refresh tokens expire seven days after
  their issue time and carry the JWT IDs \<open>1a\<close> and \<open>1b\<close>.
\<close>

theorem GenerateTokenPair_refresh_lifetime_witness:
  "\<exists>accessToken refreshToken accessToken' refreshToken'.
     GenerateTokenPair_call ''u1'' ''a@x.com'' [''user''] sample_cfg
       (readings [1700000000000000000, 1700000000000000001, 1700000000000000002,
                  1700000000000000003]) 26 = (Inr (accessToken, refreshToken), 27)
     \<and> ExpiresAt (payload refreshToken) = Some 1700604800
     \<and> IssuedAt (payload refreshToken) = Some 1700000000
     \<and> ID (payload refreshToken) = ''1a''
     \<and> GenerateTokenPair_call ''u1'' ''a@x.com'' [''user''] sample_cfg
       (readings [1700000000000000000, 1700000000000000001, 1700000000000000002,
                  1700000000000000003]) 27 = (Inr (accessToken', refreshToken'), 28)
     \<and> ID (payload refreshToken') = ''1b''
     \<and> refreshToken' \<noteq> refreshToken"
  using GenerateTokenPair_refresh_lifetime [of "''u1''" "''a@x.com''" "[''user'']" sample_cfg
       "readings [1700000000000000000, 1700000000000000001, 1700000000000000002,
                  1700000000000000003]" 26]
  by (simp add: GenerateTokenPair_call_eq GenerateTokenPair_Inr sample_cfg_def readings_def
        NewNumericDate_def UUID_String_def hexdigit_def)

text \<open>
  The claim as the specification words it fails when the second changes between the two
  readings of the clock: the refresh token then expires 604799 seconds after its issue time.
\<close>

theorem GenerateTokenPair_refresh_lifetime_counterexample:
  "\<not> isl (GenerateTokenPair ''u1'' ''a@x.com'' [''user''] sample_cfg
       (readings [1700000000999999997, 1700000000999999998, 1700000000999999999,
                  1700000001000000000]) ''jti-1'')
   \<and> ExpiresAt (payload (snd (projr (GenerateTokenPair ''u1'' ''a@x.com'' [''user''] sample_cfg
       (readings [1700000000999999997, 1700000000999999998, 1700000000999999999,
                  1700000001000000000]) ''jti-1'')))) = Some (1700000001 + 604799)
   \<and> IssuedAt (payload (snd (projr (GenerateTokenPair ''u1'' ''a@x.com'' [''user''] sample_cfg
       (readings [1700000000999999997, 1700000000999999998, 1700000000999999999,
                  1700000001000000000]) ''jti-1'')))) = Some 1700000001"
  by (simp add: GenerateTokenPair_Inr sample_cfg_def readings_def NewNumericDate_def)

section \<open>Refreshing\<close>

text \<open>
  Claim C6. The answer of the refresh handler depends on the store through the ledger
  only: two runs on stores with the same ledger, which may differ in the users' rows and so
  in the capabilities stored for the user, give the same answer, token for token; such are
  the stores before and after \<open>UpdateUserAccesses\<close>. When the answer is a pair of tokens,
  the capability list of both is the one in the claims of the refresh token that was
  presented.
\<close>

theorem AuthHandler_RefreshToken_capabilities:
  assumes "blocked_refresh_tokens db2 = blocked_refresh_tokens db1"
  shows "fst (AuthHandler_RefreshToken db2 cfg clk uuid body) =
         fst (AuthHandler_RefreshToken db1 cfg clk uuid body)
       \<and> (\<forall>userID accesses clk' db'.
            UpdateUserAccesses db1 userID accesses clk' = Inr db' \<longrightarrow>
            fst (AuthHandler_RefreshToken db' cfg clk uuid body) =
            fst (AuthHandler_RefreshToken db1 cfg clk uuid body))
       \<and> (\<forall>accessToken refreshToken.
            fst (AuthHandler_RefreshToken db1 cfg clk uuid body) =
              Response 200 (TokensBody accessToken refreshToken) \<longrightarrow>
            (\<exists>input a claims s.
               body = Some input \<and> Request_RefreshToken input = Compact a claims s
               \<and> Accesses (payload accessToken) = Accesses claims
               \<and> Accesses (payload refreshToken) = Accesses claims))"
proof -
  have same: "fst (AuthHandler_RefreshToken db cfg clk uuid body) =
         fst (AuthHandler_RefreshToken db1 cfg clk uuid body)"
    if "blocked_refresh_tokens db = blocked_refresh_tokens db1" for db
  proof -
    have "IsRefreshTokenBlocked db t now = IsRefreshTokenBlocked db1 t now" for t now
      using that by (simp add: IsRefreshTokenBlocked_def)
    then show ?thesis
      by (simp add: AuthHandler_RefreshToken_def ValidateRefreshToken_def
            GenerateTokenPair_Inr UpdateRefreshToken_def split: option.splits sum.splits)
  qed
  have updated: "fst (AuthHandler_RefreshToken db' cfg clk uuid body) =
            fst (AuthHandler_RefreshToken db1 cfg clk uuid body)"
    if "UpdateUserAccesses db1 userID accesses clk' = Inr db'" for userID accesses clk' db'
    using that by (intro same UpdateUserAccesses_ledger)
  have carried: "\<exists>input a claims s.
               body = Some input \<and> Request_RefreshToken input = Compact a claims s
               \<and> Accesses (payload accessToken) = Accesses claims
               \<and> Accesses (payload refreshToken) = Accesses claims"
    if "fst (AuthHandler_RefreshToken db1 cfg clk uuid body) =
              Response 200 (TokensBody accessToken refreshToken)" for accessToken refreshToken
    using that
    by (auto simp: AuthHandler_RefreshToken_def ValidateRefreshToken_def ValidateToken_def
          ParseWithClaims_def GenerateTokenPair_Inr UpdateRefreshToken_def
          split: option.splits sum.splits if_splits token_string.splits)
  from same [OF assms] updated carried show ?thesis by blast
qed

text \<open>
  The sample user is given the capability \<open>admin\<close> by \<open>UpdateUserAccesses\<close>; a refresh
  with the sample token, which carries \<open>user\<close> alone, gives on the store before and on the
  store after the same pair of tokens, both with \<open>user\<close> alone.
\<close>

theorem AuthHandler_RefreshToken_capabilities_witness:
  "UpdateUserAccesses sample_db ''u1'' [''user'', ''admin'']
      (readings [1700000150000000000, 1700000150000000001]) = Inr sample_db_admin
   \<and> fst (AuthHandler_RefreshToken sample_db_admin sample_cfg
        (readings [1700000200000000000, 1700000200000000001, 1700000200000000002,
                   1700000200000000003, 1700000200000000004, 1700000200000000005,
                   1700000200000000006])
        ''jti-2'' (Some \<lparr>Request_RefreshToken = sample_refresh\<rparr>)) =
      fst (AuthHandler_RefreshToken sample_db sample_cfg
        (readings [1700000200000000000, 1700000200000000001, 1700000200000000002,
                   1700000200000000003, 1700000200000000004, 1700000200000000005,
                   1700000200000000006])
        ''jti-2'' (Some \<lparr>Request_RefreshToken = sample_refresh\<rparr>))
   \<and> (\<exists>accessToken refreshToken.
        fst (AuthHandler_RefreshToken sample_db sample_cfg
          (readings [1700000200000000000, 1700000200000000001, 1700000200000000002,
                     1700000200000000003, 1700000200000000004, 1700000200000000005,
                     1700000200000000006])
          ''jti-2'' (Some \<lparr>Request_RefreshToken = sample_refresh\<rparr>)) =
        Response 200 (TokensBody accessToken refreshToken)
        \<and> Accesses (payload accessToken) = [''user'']
        \<and> Accesses (payload refreshToken) = [''user''])"
proof -
  have u: "UpdateUserAccesses sample_db ''u1'' [''user'', ''admin'']
      (readings [1700000150000000000, 1700000150000000001]) = Inr sample_db_admin"
    by (simp add: sample_db_def sample_db_admin_def sample_user_def sample_cfg_def
          sample_refresh_def sample_claims_def readings_def UpdateUserAccesses_def
          GetUserByID_def First_def UpdateUser_def)
  have h: "blocked_refresh_tokens sample_db_admin = blocked_refresh_tokens sample_db"
    by (simp add: sample_db_def sample_db_admin_def sample_user_def sample_cfg_def
          sample_refresh_def sample_claims_def readings_def)
  have r: "\<exists>accessToken refreshToken.
        fst (AuthHandler_RefreshToken sample_db sample_cfg
          (readings [1700000200000000000, 1700000200000000001, 1700000200000000002,
                     1700000200000000003, 1700000200000000004, 1700000200000000005,
                     1700000200000000006])
          ''jti-2'' (Some \<lparr>Request_RefreshToken = sample_refresh\<rparr>)) =
        Response 200 (TokensBody accessToken refreshToken)
        \<and> Accesses (payload accessToken) = [''user'']
        \<and> Accesses (payload refreshToken) = [''user'']"
    by (simp add: sample_db_def sample_db_admin_def sample_user_def sample_cfg_def
          sample_refresh_def sample_claims_def readings_def AuthHandler_RefreshToken_def
          ValidateRefreshToken_def
          IsRefreshTokenBlocked_def ValidateToken_def ParseWithClaims_def GetSigningMethod_def
          Verify_def Validate_def Unix_def GenerateTokenPair_Inr UpdateRefreshToken_def)
  from AuthHandler_RefreshToken_capabilities
         [OF h, where cfg = sample_cfg and uuid = "''jti-2''"
            and body = "Some \<lparr>Request_RefreshToken = sample_refresh\<rparr>"
            and clk = "readings [1700000200000000000, 1700000200000000001, 1700000200000000002,
                   1700000200000000003, 1700000200000000004, 1700000200000000005,
                   1700000200000000006]"] u r
  show ?thesis by blast
qed

section \<open>Authorization\<close>

text \<open>
  Claim C8. On a context to which the authentication stage has attached claims,
  \<open>RequireAccess\<close> hands the request on exactly when the required label is an element of
  the capability list of the claims, by equality of strings; otherwise it answers 403
  "Insufficient access rights".
\<close>

theorem RequireAccess_membership:
  assumes "Locals_user c = ClaimsRef claims"
  shows "(RequireAccess requiredAccess c = Next c \<longleftrightarrow> requiredAccess \<in> set (Accesses claims))
       \<and> (requiredAccess \<notin> set (Accesses claims) \<longrightarrow>
            RequireAccess requiredAccess c = Respond 403 (ErrorBody ''Insufficient access rights''))"
  using assms by (simp add: RequireAccess_def range_Accesses_iff)

text \<open>
  Claims with the capabilities \<open>user\<close> and \<open>superadmin\<close> pass for \<open>superadmin\<close>, and are
  refused for \<open>admin\<close>, for the prefix \<open>super\<close> and for \<open>Superadmin\<close>.
\<close>

theorem RequireAccess_membership_witness:
  "RequireAccess ''superadmin'' sample_ctx = Next sample_ctx
   \<and> RequireAccess ''admin'' sample_ctx = Respond 403 (ErrorBody ''Insufficient access rights'')
   \<and> RequireAccess ''super'' sample_ctx = Respond 403 (ErrorBody ''Insufficient access rights'')
   \<and> RequireAccess ''Superadmin'' sample_ctx =
       Respond 403 (ErrorBody ''Insufficient access rights'')"
proof -
  have h: "Locals_user sample_ctx = ClaimsRef (sample_claims\<lparr>Accesses := [''user'', ''superadmin'']\<rparr>)"
    by (simp add: sample_ctx_def sample_claims_def)
  from RequireAccess_membership [OF h, of "''superadmin''"]
       RequireAccess_membership [OF h, of "''admin''"]
       RequireAccess_membership [OF h, of "''super''"]
       RequireAccess_membership [OF h, of "''Superadmin''"]
  show ?thesis by simp
qed

text \<open>
  Claim C9. \<open>RequireAccess\<close> panics on a context that has no claims attached: it panics
  exactly when the value under the key \<open>user\<close> is not a pointer to claims, in particular
  when nothing is stored there, and answers neither 403 nor 401 then. On a context that
  \<open>Protected\<close> has handed on it does not panic.
\<close>

theorem RequireAccess_panics_without_claims:
  "(Locals_user c = Unset \<longrightarrow> RequireAccess requiredAccess c = Panic)
   \<and> (RequireAccess requiredAccess c = Panic \<longleftrightarrow> (\<forall>claims. Locals_user c \<noteq> ClaimsRef claims))
   \<and> (\<forall>c'. Protected read_token cfg now c0 = Next c' \<longrightarrow> RequireAccess requiredAccess c' \<noteq> Panic)"
  by (auto simp: RequireAccess_def Protected_def Let_def
           split: local_value.splits sum.splits if_splits)

text \<open>
  A request with no claims attached makes \<open>RequireAccess\<close> panic; the same request with a
  valid bearer token passes \<open>Protected\<close>, and \<open>RequireAccess\<close> then answers 403.
\<close>

theorem RequireAccess_panics_without_claims_witness:
  "RequireAccess ''superadmin'' \<lparr>Authorization = ''bearer eyJ'', Locals_user = Unset\<rparr> = Panic
   \<and> Protected sample_read_token sample_cfg 1700000200000000000
        \<lparr>Authorization = ''bearer eyJ'', Locals_user = Unset\<rparr> =
      Next \<lparr>Authorization = ''bearer eyJ'', Locals_user = ClaimsRef sample_claims\<rparr>
   \<and> RequireAccess ''superadmin''
        \<lparr>Authorization = ''bearer eyJ'', Locals_user = ClaimsRef sample_claims\<rparr> =
      Respond 403 (ErrorBody ''Insufficient access rights'')"
proof -
  have p: "Protected sample_read_token sample_cfg 1700000200000000000
        \<lparr>Authorization = ''bearer eyJ'', Locals_user = Unset\<rparr> =
      Next \<lparr>Authorization = ''bearer eyJ'', Locals_user = ClaimsRef sample_claims\<rparr>"
    by (simp add: Protected_def HasPrefix_def ToLower_def sample_read_token_def sample_cfg_def
          sample_refresh_def sample_claims_def ValidateToken_def
          ParseWithClaims_def GetSigningMethod_def Verify_def Validate_def Unix_def)
  have r: "RequireAccess ''superadmin''
        \<lparr>Authorization = ''bearer eyJ'', Locals_user = ClaimsRef sample_claims\<rparr> =
      Respond 403 (ErrorBody ''Insufficient access rights'')"
    by (simp add: RequireAccess_def sample_read_token_def sample_cfg_def sample_refresh_def
          sample_claims_def)
  from RequireAccess_panics_without_claims
         [of "\<lparr>Authorization = ''bearer eyJ'', Locals_user = Unset\<rparr>" "''superadmin''"
             sample_read_token sample_cfg 1700000200000000000
             "\<lparr>Authorization = ''bearer eyJ'', Locals_user = Unset\<rparr>"] p r
  show ?thesis by simp
qed

end
